theory Spec2Isabelle
  imports Main
begin

section \<open>Values, errors and responses\<close>

text \<open>
  The session handlers of the user controller (register, login, logout, refresh,
  change password) over an explicit user collection. A handler takes the collection
  and the request and returns the collection it leaves behind together with either
  the exception it throws or the response it sends.

  A document field is absent, null or holds a value; \<open>$unset\<close> makes it absent.
\<close>

datatype 'a field = Unset | Null | Val 'a

datatype json = JNull | JNum nat | JStr string | JObj "(string \<times> json) list"

text \<open>
  \<open>new ApiError(statusCode, message)\<close> carries a status and a message. The other
  constructors are the exceptions that are not an \<open>ApiError\<close>: a \<open>TypeError\<close> of
  the language (a property read on \<open>undefined\<close> or \<open>null\<close>), an error thrown by
  \<open>jwt.verify\<close>, and an error thrown by the document store or a hook of the model.
\<close>

datatype error =
    ApiError nat string
  | TypeError string
  | JsonWebTokenError string
  | StoreError string

fun error_message :: "error \<Rightarrow> string" where
  "error_message (ApiError code m) = m"
| "error_message (TypeError m) = m"
| "error_message (JsonWebTokenError m) = m"
| "error_message (StoreError m) = m"

record cookie_options =
  httpOnly :: bool
  secure :: bool

text \<open>\<open>new ApiResponse(statusCode, data, message)\<close>.\<close>

record apiResponse =
  statusCode :: nat
  data :: json
  message :: string

text \<open>What \<open>res.status(..).cookie(..).clearCookie(..).json(..)\<close> has built.\<close>

record response =
  status :: nat
  set_cookies :: "(string \<times> string \<times> cookie_options) list"
  cleared_cookies :: "(string \<times> cookie_options) list"
  json_body :: apiResponse

definition json_field :: "json \<Rightarrow> string \<Rightarrow> json option" where
  "json_field j k = (case j of JObj kvs \<Rightarrow> map_of kvs k | _ \<Rightarrow> None)"

section \<open>User documents and requests\<close>

text \<open>
  The fields of a user document that the handlers read or write (\<open>user_id\<close> is
  \<open>_id\<close>; \<open>password\<close> holds the stored hash).
\<close>

record user =
  user_id :: nat
  username :: string
  email :: string
  fullName :: string
  password :: string
  avatar :: string
  coverImage :: string
  refreshToken :: "string field"

text \<open>
  A request: the parsed body and cookies (a missing key is \<open>undefined\<close>; the values
  the handlers read are strings), \<open>req.files\<close> (undefined, or an object from a field
  name to the array of the paths of its uploaded files) and \<open>req.user\<close>, the document
  an earlier middleware attached (undefined when none did).
\<close>

record request =
  body :: "string \<rightharpoonup> string"
  cookies :: "string \<rightharpoonup> string"
  files :: "(string \<rightharpoonup> string list) option"
  req_user :: "user option"

text \<open>Truthiness of a value that is undefined or a string, and \<open>a || b\<close> on such values.\<close>

definition truthy :: "string option \<Rightarrow> bool" where
  "truthy v = (case v of None \<Rightarrow> False | Some s \<Rightarrow> s \<noteq> [])"

definition js_or :: "string option \<Rightarrow> string option \<Rightarrow> string option" where
  "js_or a b = (if truthy a then a else b)"

text \<open>
  \<open>String.prototype.trim\<close> on the ASCII white space (space, tab, line feed, vertical
  tab, form feed, carriage return) and \<open>toLowerCase\<close> on the ASCII letters.
\<close>

definition is_space :: "char \<Rightarrow> bool" where
  "is_space c = (c \<in> set [CHR '' '', CHR 0x09, CHR 0x0A, CHR 0x0B, CHR 0x0C, CHR 0x0D])"

definition trim :: "string \<Rightarrow> string" where
  "trim s = rev (dropWhile is_space (rev (dropWhile is_space s)))"

definition lower_char :: "char \<Rightarrow> char" where
  "lower_char c =
     (case map_of (zip ''ABCDEFGHIJKLMNOPQRSTUVWXYZ'' ''abcdefghijklmnopqrstuvwxyz'') c of
        Some d \<Rightarrow> d
      | None \<Rightarrow> c)"

definition toLowerCase :: "string \<Rightarrow> string" where
  "toLowerCase s = map lower_char s"

section \<open>The parts of the application outside the controller\<close>

text \<open>
  The user model (its schema, its pre-save hook and its methods), the token library,
  the upload helper and the process environment are not part of the controller; the
  handlers are stated over any implementation of them:
  \<^item> \<open>hashPassword\<close>: what the pre-save hook stores for a password that was set
    (it may throw);
  \<^item> \<open>isPasswordCorrect\<close>: the method \<open>user.isPasswordCorrect(candidate)\<close>;
  \<^item> \<open>generateAccessToken\<close>, \<open>generateRefreshToken\<close>: the methods of a user
    document, at a reading of the clock;
  \<^item> \<open>jwt_verify token secret now\<close>: \<open>jwt.verify\<close>, which throws (with a message) or
    returns the decoded payload, of which the handlers read \<open>_id\<close> (possibly
    undefined);
  \<^item> \<open>REFRESH_TOKEN_SECRET\<close>: \<open>process.env.REFRESH_TOKEN_SECRET\<close>;
  \<^item> \<open>uploadOnCloudinary\<close>: from a local path (possibly undefined) to the url of
    the uploaded asset, or null;
  \<^item> \<open>create_guard\<close>: the validators and indexes of the schema, which reject a new
    document (with a message) or let it in.
\<close>

record env =
  hashPassword :: "string option \<Rightarrow> error + string"
  isPasswordCorrect :: "user \<Rightarrow> string option \<Rightarrow> bool"
  generateAccessToken :: "user \<Rightarrow> nat \<Rightarrow> string"
  generateRefreshToken :: "user \<Rightarrow> nat \<Rightarrow> string"
  jwt_verify :: "string \<Rightarrow> string \<Rightarrow> nat \<Rightarrow> string + nat option"
  REFRESH_TOKEN_SECRET :: string
  uploadOnCloudinary :: "string option \<Rightarrow> string option"
  create_guard :: "user list \<Rightarrow> user \<Rightarrow> string option"

section \<open>The document store\<close>

text \<open>
  The collection is the list of its documents in insertion order. \<open>User.findById\<close>
  and \<open>User.findOne({$or: [{username}, {email}]})\<close> return the first document that
  matches, or null. The filter is matched as it is written: a stored string against
  the value given, byte for byte; an undefined value matches no stored string.
\<close>

definition findById :: "user list \<Rightarrow> nat option \<Rightarrow> user option" where
  "findById db i = (case i of None \<Rightarrow> None | Some i' \<Rightarrow> find (\<lambda>u. user_id u = i') db)"

definition findOne :: "user list \<Rightarrow> string option \<Rightarrow> string option \<Rightarrow> user option" where
  "findOne db username' email' =
     find (\<lambda>u. Some (username u) = username' \<or> Some (email u) = email') db"

text \<open>
  Writing back a document (\<open>user.save\<close>, \<open>findByIdAndUpdate\<close>) changes the paths that
  were modified, on the first document with that \<open>_id\<close>.
\<close>

fun updateOne :: "nat \<Rightarrow> (user \<Rightarrow> user) \<Rightarrow> user list \<Rightarrow> user list" where
  "updateOne i f [] = []"
| "updateOne i f (u # us) = (if user_id u = i then f u # us else u # updateOne i f us)"

definition new_id :: "user list \<Rightarrow> nat" where
  "new_id db = Suc (foldr max (map user_id db) 0)"

text \<open>
  Modelled from the spec: \<open>User.create\<close> of the user model, which is not among the
  sources. The data model lists \<open>username\<close>, \<open>email\<close>, \<open>fullName\<close> and the password
  hash as fields of every identity, stored with a hashed password and no refresh
  token: a document that lacks one of them is rejected, the password is hashed by
  the hook, the schema's own checks (\<open>create_guard\<close>) are asked, and the document is
  appended under a new \<open>_id\<close>.
\<close>

definition User_create ::
  "env \<Rightarrow> user list \<Rightarrow> string \<Rightarrow> string option \<Rightarrow> string option \<Rightarrow> string option
     \<Rightarrow> string \<Rightarrow> string \<Rightarrow> user list \<times> (error + user)" where
  "User_create env db username' fullName' email' password' avatar' coverImage' =
     (case (fullName', email', password') of
        (Some fn, Some em, Some pw) \<Rightarrow>
          (case hashPassword env (Some pw) of
             Inl e \<Rightarrow> (db, Inl e)
           | Inr h \<Rightarrow>
               (let doc = \<lparr> user_id = new_id db, username = username', email = em,
                            fullName = fn, password = h, avatar = avatar',
                            coverImage = coverImage', refreshToken = Unset \<rparr>
                in case create_guard env db doc of
                     Some m \<Rightarrow> (db, Inl (StoreError m))
                   | None \<Rightarrow> (db @ [doc], Inr doc)))
      | _ \<Rightarrow> (db, Inl (StoreError ''User validation failed'')))"

text \<open>
  A document as the JSON object a response carries, and \<open>.select(projection)\<close> with
  an exclusion projection: the fields listed with a leading minus are left out.
\<close>

definition toObject :: "user \<Rightarrow> (string \<times> json) list" where
  "toObject u =
     [(''_id'', JNum (user_id u)), (''username'', JStr (username u)),
      (''email'', JStr (email u)), (''fullName'', JStr (fullName u)),
      (''password'', JStr (password u)), (''avatar'', JStr (avatar u)),
      (''coverImage'', JStr (coverImage u))]
     @ (case refreshToken u of
          Unset \<Rightarrow> []
        | Null \<Rightarrow> [(''refreshToken'', JNull)]
        | Val t \<Rightarrow> [(''refreshToken'', JStr t)])"

fun split_on :: "char \<Rightarrow> string \<Rightarrow> string list" where
  "split_on c [] = [[]]"
| "split_on c (x # xs) =
     (if x = c then [] # split_on c xs
      else (case split_on c xs of
              [] \<Rightarrow> [[x]]
            | w # ws \<Rightarrow> (x # w) # ws))"

definition select :: "string \<Rightarrow> (string \<times> json) list \<Rightarrow> (string \<times> json) list" where
  "select projection doc =
     filter (\<lambda>(k, v). (CHR ''-'' # k) \<notin> set (split_on CHR '' '' projection)) doc"

definition select_doc :: "string \<Rightarrow> user option \<Rightarrow> json" where
  "select_doc projection found =
     (case found of None \<Rightarrow> JNull | Some u \<Rightarrow> JObj (select projection (toObject u)))"

section \<open>The handlers\<close>

definition options :: cookie_options where
  "options = \<lparr> httpOnly = True, secure = True \<rparr>"

text \<open>
  \<open>generateAccessAndRefreshToken(userId)\<close>: any exception inside its \<open>try\<close> (the only
  one here: a method called on the null that \<open>findById\<close> returned) becomes
  \<open>ApiError(500)\<close>. The result is the pair \<open>(accessToken, refreshToken)\<close>.
\<close>

definition generateAccessAndRefreshToken ::
  "env \<Rightarrow> nat \<Rightarrow> user list \<Rightarrow> nat \<Rightarrow> user list \<times> (error + string \<times> string)" where
  "generateAccessAndRefreshToken env now db userId =
     (case findById db (Some userId) of
        None \<Rightarrow>
          (db, Inl (ApiError 500
             ''Something went wrong while generating refresh and access token''))
      | Some user \<Rightarrow>
          (let accessToken = generateAccessToken env user now;
               refreshToken' = generateRefreshToken env user now
           in (updateOne userId (\<lambda>u. u\<lparr>refreshToken := Val refreshToken'\<rparr>) db,
               Inr (accessToken, refreshToken'))))"

text \<open>\<open>req.files?.avatar[0].path\<close>: only an undefined \<open>req.files\<close> short-circuits.\<close>

definition avatarLocalPath :: "request \<Rightarrow> error + string option" where
  "avatarLocalPath req =
     (case files req of
        None \<Rightarrow> Inr None
      | Some fs \<Rightarrow>
          (case fs ''avatar'' of
             None \<Rightarrow> Inl (TypeError ''Cannot read properties of undefined (reading 0)'')
           | Some [] \<Rightarrow> Inl (TypeError ''Cannot read properties of undefined (reading path)'')
           | Some (p # ps) \<Rightarrow> Inr (Some p)))"

definition coverImageLocalPath :: "request \<Rightarrow> string option" where
  "coverImageLocalPath req =
     (case files req of
        None \<Rightarrow> None
      | Some fs \<Rightarrow>
          (case fs ''coverImage'' of
             None \<Rightarrow> None
           | Some [] \<Rightarrow> None
           | Some (p # ps) \<Rightarrow> Some p))"

definition registerUser :: "env \<Rightarrow> user list \<Rightarrow> request \<Rightarrow> user list \<times> (error + response)" where
  "registerUser env db req =
     (let username' = body req ''username''; email' = body req ''email'';
          fullName' = body req ''fullName''; password' = body req ''password''
      in if list_ex (\<lambda>field. map_option trim field = Some [])
              [fullName', email', username', password']
         then (db, Inl (ApiError 400 ''All field are required!''))
         else (case findOne db username' email' of
            Some existedUser \<Rightarrow>
              (db, Inl (ApiError 409 ''User with email or username already exsits''))
          | None \<Rightarrow>
              (case avatarLocalPath req of
                 Inl e \<Rightarrow> (db, Inl e)
               | Inr avatarPath \<Rightarrow>
                   if \<not> truthy avatarPath
                   then (db, Inl (ApiError 400 ''Please provide a profile image''))
                   else (case uploadOnCloudinary env avatarPath of
                      None \<Rightarrow> (db, Inl (ApiError 400 ''Avatar file is required''))
                    | Some avatar_url \<Rightarrow>
                        (case username' of
                           None \<Rightarrow>
                             (db, Inl (TypeError
                                ''Cannot read properties of undefined (reading toLowerCase)''))
                         | Some un \<Rightarrow>
                             (case User_create env db (toLowerCase un) fullName' email'
                                     password' avatar_url
                                     (case uploadOnCloudinary env (coverImageLocalPath req) of
                                        None \<Rightarrow> []
                                      | Some cover_url \<Rightarrow> cover_url) of
                                (db', Inl e) \<Rightarrow> (db', Inl e)
                              | (db', Inr created) \<Rightarrow>
                                  (case findById db' (Some (user_id created)) of
                                     None \<Rightarrow>
                                       (db', Inl (ApiError 500
                                          ''Something went wrong while registring the user!''))
                                   | Some createdUser \<Rightarrow>
                                       (db', Inr \<lparr> status = 201, set_cookies = [],
                                          cleared_cookies = [],
                                          json_body = \<lparr> statusCode = 201,
                                            data = JObj (select ''-password -refreshToken''
                                                           (toObject createdUser)),
                                            message = ''User registered successfully'' \<rparr> \<rparr>))))))))"

definition loginUser ::
  "env \<Rightarrow> nat \<Rightarrow> user list \<Rightarrow> request \<Rightarrow> user list \<times> (error + response)" where
  "loginUser env now db req =
     (let username' = body req ''username''; email' = body req ''email'';
          password' = body req ''password''
      in if \<not> (truthy username' \<or> truthy email')
         then (db, Inl (ApiError 400 ''Username or Email field is required''))
         else (case findOne db username' email' of
            None \<Rightarrow> (db, Inl (ApiError 404 ''User does not Exist''))
          | Some user \<Rightarrow>
              if \<not> isPasswordCorrect env user password'
              then (db, Inl (ApiError 401 ''Incorrect Password''))
              else (case generateAccessAndRefreshToken env now db (user_id user) of
                 (db', Inl e) \<Rightarrow> (db', Inl e)
               | (db', Inr (accessToken, refreshToken')) \<Rightarrow>
                   (db', Inr \<lparr> status = 200,
                      set_cookies = [(''accessToken'', accessToken, options),
                                     (''refreshToken'', refreshToken', options)],
                      cleared_cookies = [],
                      json_body = \<lparr> statusCode = 200,
                        data = JObj
                          [(''user'', select_doc
                              ''-password -refreshToken -videoUpload -watchHistory''
                              (findById db' (Some (user_id user)))),
                           (''accessToken'', JStr accessToken),
                           (''refreshToken'', JStr refreshToken')],
                        message = ''User logged In Successfully'' \<rparr> \<rparr>))))"


text \<open>The body of the \<open>try\<close> block of \<open>refreshAccessToken\<close>, then its \<open>catch\<close>.\<close>

definition refresh_try ::
  "env \<Rightarrow> nat \<Rightarrow> user list \<Rightarrow> request \<Rightarrow> user list \<times> (error + response)" where
  "refresh_try env now db req =
     (let incomingRefreshToken = js_or (cookies req ''refreshToken'') (body req ''refreshToken'')
      in case incomingRefreshToken of
           None \<Rightarrow> (db, Inl (ApiError 401 ''Unauthorized access''))
         | Some incoming \<Rightarrow>
             if incoming = [] then (db, Inl (ApiError 401 ''Unauthorized access''))
             else (case jwt_verify env incoming (REFRESH_TOKEN_SECRET env) now of
                Inl m \<Rightarrow> (db, Inl (JsonWebTokenError m))
              | Inr decoded_id \<Rightarrow>
                  (case findById db decoded_id of
                     None \<Rightarrow> (db, Inl (ApiError 401 ''Invalid refresh token''))
                   | Some user \<Rightarrow>
                       if refreshToken user \<noteq> Val incoming
                       then (db, Inl (ApiError 401 ''Refresh token expired''))
                       else (case generateAccessAndRefreshToken env now db (user_id user) of
                          (db', Inl e) \<Rightarrow> (db', Inl e)
                        | (db', Inr (accessToken, refreshToken')) \<Rightarrow>
                            (db', Inr \<lparr> status = 200,
                               set_cookies = [(''accessToken'', accessToken, options),
                                              (''refreshToken'', refreshToken', options)],
                               cleared_cookies = [],
                               json_body = \<lparr> statusCode = 201,
                                 data = JObj [(''accessToken'', JStr accessToken),
                                              (''refreshToken'', JStr refreshToken')],
                                 message = ''New access token created'' \<rparr> \<rparr>)))))"

definition refreshAccessToken ::
  "env \<Rightarrow> nat \<Rightarrow> user list \<Rightarrow> request \<Rightarrow> user list \<times> (error + response)" where
  "refreshAccessToken env now db req =
     (case refresh_try env now db req of
        (db', Inl e) \<Rightarrow>
          (db', Inl (ApiError 401
             (if error_message e = [] then ''Invalid refresh token'' else error_message e)))
      | (db', Inr res) \<Rightarrow> (db', Inr res))"

definition updatePassword :: "env \<Rightarrow> user list \<Rightarrow> request \<Rightarrow> user list \<times> (error + response)" where
  "updatePassword env db req =
     (let username' = body req ''username''; email' = body req ''email'';
          oldPassword = body req ''oldPassword''; newPassword = body req ''newPassword''
      in case (case findById db (map_option user_id (req_user req)) of
                 Some u \<Rightarrow> Some u
               | None \<Rightarrow> findOne db username' email') of
           None \<Rightarrow>
             (db, Inl (TypeError
                ''Cannot read properties of null (reading isPasswordCorrect)''))
         | Some user \<Rightarrow>
             if \<not> isPasswordCorrect env user oldPassword
             then (db, Inl (ApiError 400 ''Invalid old password''))
             else if isPasswordCorrect env user newPassword
             then (db, Inl (ApiError 406 ''Your new password cannot same as old one''))
             else (case hashPassword env newPassword of
                Inl e \<Rightarrow> (db, Inl e)
              | Inr h \<Rightarrow>
                  (updateOne (user_id user) (\<lambda>u. u\<lparr>password := h\<rparr>) db,
                   Inr \<lparr> status = 200, set_cookies = [], cleared_cookies = [],
                     json_body = \<lparr> statusCode = 200,
                       data = JObj (case newPassword of
                                      None \<Rightarrow> []
                                    | Some p \<Rightarrow> [(''newPassword'', JStr p)]),
                       message = ''Password changed successfully'' \<rparr> \<rparr>)))"

section \<open>A sample implementation of the outer parts\<close>

text \<open>
  Modelled from the spec: the token issuer (the methods \<open>generateAccessToken\<close> and
  \<open>generateRefreshToken\<close> of the user model, and the token library), which is not
  among the sources. A token is the signed claim set of subject, issue time and expiry
  time, under the secret of its class; the two classes have different secrets. The
  serialisation writes the numbers in unary, so that different claim sets give
  different strings.
\<close>

definition unary :: "nat \<Rightarrow> string" where
  "unary n = replicate n CHR ''1''"

definition issue_token :: "string \<Rightarrow> nat \<Rightarrow> nat \<Rightarrow> nat \<Rightarrow> string" where
  "issue_token secret subjectId issuedAt expiresAt =
     secret @ ''.'' @ unary subjectId @ ''.'' @ unary issuedAt @ ''.'' @ unary expiresAt"

text \<open>
  Modelled from the spec: verification of a token returns its subject, or fails
  because the signature is not that of the secret or because the token has expired.
\<close>

definition verify_token :: "string \<Rightarrow> string \<Rightarrow> nat \<Rightarrow> string + nat option" where
  "verify_token token secret now =
     (case split_on CHR ''.'' token of
        [s, subjectId, issuedAt, expiresAt] \<Rightarrow>
          if s \<noteq> secret then Inl ''invalid signature''
          else if length expiresAt \<le> now then Inl ''jwt expired''
          else Inr (Some (length subjectId))
      | _ \<Rightarrow> Inl ''jwt malformed'')"

text \<open>
  Modelled from the spec: one implementation of the outer parts, used to run the
  handlers on concrete requests. The password verifier compares against a one-way
  image of the plain text; the access token lives one tick of the clock and the
  refresh token two; an upload returns a public url for a path and null for none;
  the schema rejects a second document with a stored username or email.
\<close>

definition spec_env :: env where
  "spec_env =
     \<lparr> hashPassword = (\<lambda>p. case p of
          None \<Rightarrow> Inl (StoreError ''Illegal arguments: undefined'')
        | Some s \<Rightarrow> Inr (''hash:'' @ s)),
       isPasswordCorrect = (\<lambda>u c. case c of
          None \<Rightarrow> False
        | Some s \<Rightarrow> password u = ''hash:'' @ s),
       generateAccessToken = (\<lambda>u now. issue_token ''A'' (user_id u) now (now + 1)),
       generateRefreshToken = (\<lambda>u now. issue_token ''R'' (user_id u) now (now + 2)),
       jwt_verify = verify_token,
       REFRESH_TOKEN_SECRET = ''R'',
       uploadOnCloudinary = (\<lambda>p. case p of
          None \<Rightarrow> None
        | Some path \<Rightarrow> Some (''cdn/'' @ path)),
       create_guard = (\<lambda>db doc.
          if list_ex (\<lambda>u. username u = username doc \<or> email u = email doc) db
          then Some ''E11000 duplicate key error'' else None) \<rparr>"

section \<open>Sample documents and requests\<close>

definition alice :: user where
  "alice =
     \<lparr> user_id = 1, username = ''alice'', email = ''a@x.com'', fullName = ''Alice A'',
       password = ''hash:p1'', avatar = ''cdn/a.png'', coverImage = [],
       refreshToken = Unset \<rparr>"

text \<open>
  The collection after alice logged in at clock reading 1, and the one in which her
  stored refresh token was issued at clock reading 0.
\<close>

definition alice_session :: "user list" where
  "alice_session = [alice\<lparr>refreshToken := Val ''R.1.1.111''\<rparr>]"

definition alice_older_session :: "user list" where
  "alice_older_session = [alice\<lparr>refreshToken := Val ''R.1..11''\<rparr>]"

definition register_alice :: request where
  "register_alice =
     \<lparr> body = [''username'' \<mapsto> ''Alice'', ''email'' \<mapsto> ''a@x.com'',
                ''fullName'' \<mapsto> ''Alice A'', ''password'' \<mapsto> ''p1''],
       cookies = Map.empty,
       files = Some [''avatar'' \<mapsto> [''a.png'']],
       req_user = None \<rparr>"

definition register_without_username :: request where
  "register_without_username =
     \<lparr> body = [''email'' \<mapsto> ''b@x.com'', ''fullName'' \<mapsto> ''Bob B'',
                ''password'' \<mapsto> ''p1''],
       cookies = Map.empty, files = Some [''avatar'' \<mapsto> [''b.png'']],
       req_user = None \<rparr>"


definition register_with :: "string \<Rightarrow> string \<Rightarrow> string \<Rightarrow> (string \<rightharpoonup> string list) option \<Rightarrow> request" where
  "register_with username' email' password' files' =
     \<lparr> body = [''username'' \<mapsto> username', ''email'' \<mapsto> email',
                ''fullName'' \<mapsto> ''Some Name'', ''password'' \<mapsto> password'],
       cookies = Map.empty, files = files', req_user = None \<rparr>"

definition login_alice :: request where
  "login_alice =
     \<lparr> body = [''username'' \<mapsto> ''alice'', ''password'' \<mapsto> ''p1''],
       cookies = Map.empty, files = None, req_user = None \<rparr>"

definition refresh_with :: "string \<Rightarrow> request" where
  "refresh_with token =
     \<lparr> body = Map.empty, cookies = [''refreshToken'' \<mapsto> token], files = None,
       req_user = None \<rparr>"



definition change_password_alice :: request where
  "change_password_alice =
     \<lparr> body = [''oldPassword'' \<mapsto> ''p1'', ''newPassword'' \<mapsto> ''p2''],
       cookies = Map.empty, files = None, req_user = Some alice \<rparr>"

definition login_response :: response where
  "login_response =
     \<lparr> status = 200,
       set_cookies = [(''accessToken'', ''A.1.1.11'', options),
                      (''refreshToken'', ''R.1.1.111'', options)],
       cleared_cookies = [],
       json_body = \<lparr> statusCode = 200,
         data = JObj
           [(''user'', JObj [(''_id'', JNum 1), (''username'', JStr ''alice''),
                             (''email'', JStr ''a@x.com''), (''fullName'', JStr ''Alice A''),
                             (''avatar'', JStr ''cdn/a.png''), (''coverImage'', JStr [])]),
            (''accessToken'', JStr ''A.1.1.11''),
            (''refreshToken'', JStr ''R.1.1.111'')],
         message = ''User logged In Successfully'' \<rparr> \<rparr>"

definition rotated_response :: response where
  "rotated_response =
     \<lparr> status = 200,
       set_cookies = [(''accessToken'', ''A.1.1.11'', options),
                      (''refreshToken'', ''R.1.1.111'', options)],
       cleared_cookies = [],
       json_body = \<lparr> statusCode = 201,
         data = JObj [(''accessToken'', JStr ''A.1.1.11''),
                      (''refreshToken'', JStr ''R.1.1.111'')],
         message = ''New access token created'' \<rparr> \<rparr>"

definition password_changed_response :: response where
  "password_changed_response =
     \<lparr> status = 200, set_cookies = [], cleared_cookies = [],
       json_body = \<lparr> statusCode = 200, data = JObj [(''newPassword'', JStr ''p2'')],
         message = ''Password changed successfully'' \<rparr> \<rparr>"

section \<open>The document store\<close>

lemma find_user_id:
  assumes "find P db = Some u"
  shows "\<exists>v. find (\<lambda>w. user_id w = user_id u) db = Some v \<and> user_id v = user_id u"
proof (cases "find (\<lambda>w. user_id w = user_id u) db")
  case None
  from assms have "u \<in> set db"
    by (auto simp: find_Some_iff)
  with None show ?thesis
    by (auto simp: find_None_iff)
next
  case (Some v)
  then show ?thesis
    by (auto simp: find_Some_iff)
qed

lemma findById_updateOne:
  assumes "\<And>u. user_id (f u) = user_id u"
  shows "findById (updateOne i f db) (Some i) = map_option f (findById db (Some i))"
  using assms by (induction db) (simp_all add: findById_def)


lemma generate_stores:
  assumes "generateAccessAndRefreshToken env now db i = (db', Inr (a, r))"
  shows "\<exists>u. findById db (Some i) = Some u \<and> r = generateRefreshToken env u now
     \<and> db' = updateOne i (\<lambda>u. u\<lparr>refreshToken := Val r\<rparr>) db
     \<and> findById db' (Some i) = Some (u\<lparr>refreshToken := Val r\<rparr>)"
  using assms
  by (auto simp: generateAccessAndRefreshToken_def Let_def findById_updateOne
      split: option.splits)

section \<open>Projections\<close>

lemma split_projection_register:
  "split_on CHR '' '' ''-password -refreshToken'' = [''-password'', ''-refreshToken'']"
  by simp

lemma split_projection_login:
  "split_on CHR '' '' ''-password -refreshToken -videoUpload -watchHistory'' =
     [''-password'', ''-refreshToken'', ''-videoUpload'', ''-watchHistory'']"
  by simp

lemma select_excludes:
  assumes "(CHR ''-'' # k) \<in> set (split_on CHR '' '' projection)"
  shows "k \<notin> fst ` set (select projection doc)"
  using assms by (auto simp: select_def)

lemma select_doc_excludes:
  assumes "(CHR ''-'' # k) \<in> set (split_on CHR '' '' projection)"
  shows "json_field (select_doc projection found) k = None"
proof (cases found)
  case None
  then show ?thesis by (simp add: select_doc_def json_field_def)
next
  case (Some u)
  from select_excludes [OF assms] have "map_of (select projection (toObject u)) k = None"
    by (simp add: map_of_eq_None_iff)
  with Some show ?thesis by (simp add: select_doc_def json_field_def)
qed

section \<open>Runs of the sample requests\<close>

lemma spec_verify:
  "jwt_verify spec_env ''R.1.1.111'' (REFRESH_TOKEN_SECRET spec_env) now =
     (if 3 \<le> now then Inl ''jwt expired'' else Inr (Some 1))"
  "jwt_verify spec_env ''R.1..11'' (REFRESH_TOKEN_SECRET spec_env) now =
     (if 2 \<le> now then Inl ''jwt expired'' else Inr (Some 1))"
  by (simp_all add: spec_env_def verify_token_def)

lemma login_alice_run:
  "loginUser spec_env 1 [alice] login_alice = (alice_session, Inr login_response)"
  by (simp add: loginUser_def login_alice_def truthy_def findOne_def
      generateAccessAndRefreshToken_def findById_def spec_env_def issue_token_def unary_def
      eval_nat_numeral select_doc_def select_def toObject_def alice_session_def
      login_response_def alice_def Let_def)

lemma refresh_alice_session:
  "refreshAccessToken spec_env 1 alice_session (refresh_with ''R.1.1.111'') =
     (alice_session, Inr rotated_response)"
  by (simp add: refreshAccessToken_def refresh_try_def refresh_with_def js_or_def truthy_def
      spec_verify alice_session_def findById_def generateAccessAndRefreshToken_def
      spec_env_def verify_token_def issue_token_def unary_def eval_nat_numeral
      rotated_response_def alice_def options_def Let_def)

lemma refresh_alice_older_session:
  "refreshAccessToken spec_env 1 alice_older_session (refresh_with ''R.1..11'') =
     (alice_session, Inr rotated_response)"
  by (simp add: refreshAccessToken_def refresh_try_def refresh_with_def js_or_def truthy_def
      spec_verify alice_older_session_def alice_session_def findById_def
      generateAccessAndRefreshToken_def spec_env_def verify_token_def issue_token_def
      unary_def eval_nat_numeral rotated_response_def alice_def options_def Let_def)

section \<open>Login\<close>

text \<open>
  Claim C2. A login that names a user by a non-empty username or email, with a
  password that the method \<open>isPasswordCorrect\<close> of the user found accepts, succeeds,
  and the refresh token of the returned pair (in the body and in the cookie) is the
  value that this call stored on the record of that user.
\<close>

theorem login_returns_stored_refresh_token:
  assumes "truthy (body req ''username'') \<or> truthy (body req ''email'')"
    and "findOne db (body req ''username'') (body req ''email'') = Some user"
    and "isPasswordCorrect env user (body req ''password'')"
  shows "\<exists>db' res tok stored.
      loginUser env now db req = (db', Inr res)
      \<and> json_field (data (json_body res)) ''refreshToken'' = Some (JStr tok)
      \<and> map_of (set_cookies res) ''refreshToken'' = Some (tok, options)
      \<and> findById db' (Some (user_id user)) = Some stored
      \<and> refreshToken stored = Val tok"
proof -
  from assms(2) obtain v where v: "findById db (Some (user_id user)) = Some v"
    unfolding findOne_def findById_def using find_user_id by fastforce
  let ?tok = "generateRefreshToken env v now"
  let ?db' = "updateOne (user_id user) (\<lambda>u. u\<lparr>refreshToken := Val ?tok\<rparr>) db"
  have gen: "generateAccessAndRefreshToken env now db (user_id user) =
      (?db', Inr (generateAccessToken env v now, ?tok))"
    using v by (simp add: generateAccessAndRefreshToken_def Let_def)
  have stored: "findById ?db' (Some (user_id user)) = Some (v\<lparr>refreshToken := Val ?tok\<rparr>)"
    using v by (simp add: findById_updateOne)
  have "\<exists>res. loginUser env now db req = (?db', Inr res)
      \<and> json_field (data (json_body res)) ''refreshToken'' = Some (JStr ?tok)
      \<and> map_of (set_cookies res) ''refreshToken'' = Some (?tok, options)"
    using assms gen by (simp add: loginUser_def Let_def json_field_def)
  with stored show ?thesis by fastforce
qed

text \<open>
  The hypotheses of C2 hold for the login of alice with her password.
\<close>

theorem login_returns_stored_refresh_token_witness:
  "(truthy (body login_alice ''username'') \<or> truthy (body login_alice ''email''))
   \<and> findOne [alice] (body login_alice ''username'') (body login_alice ''email'') = Some alice
   \<and> isPasswordCorrect spec_env alice (body login_alice ''password'')
   \<and> (\<exists>db' res tok stored.
        loginUser spec_env 1 [alice] login_alice = (db', Inr res)
        \<and> json_field (data (json_body res)) ''refreshToken'' = Some (JStr tok)
        \<and> map_of (set_cookies res) ''refreshToken'' = Some (tok, options)
        \<and> findById db' (Some (user_id alice)) = Some stored
        \<and> refreshToken stored = Val tok)"
proof -
  have h1: "truthy (body login_alice ''username'') \<or> truthy (body login_alice ''email'')"
    by (simp add: login_alice_def truthy_def)
  have h2: "findOne [alice] (body login_alice ''username'') (body login_alice ''email'') = Some alice"
    by (simp add: login_alice_def findOne_def alice_def)
  have h3: "isPasswordCorrect spec_env alice (body login_alice ''password'')"
    by (simp add: login_alice_def spec_env_def alice_def)
  from login_returns_stored_refresh_token [OF h1 h2 h3] h1 h2 h3 show ?thesis
    by blast
qed

section \<open>Register\<close>

text \<open>
  Claim C3. The identity that a successful registration returns has neither a
  \<open>password\<close> field nor a \<open>refreshToken\<close> field.
\<close>

theorem register_response_sanitized:
  assumes "registerUser env db req = (db', Inr res)"
  shows "\<exists>kvs. data (json_body res) = JObj kvs
      \<and> ''password'' \<notin> fst ` set kvs \<and> ''refreshToken'' \<notin> fst ` set kvs"
proof -
  from assms obtain createdUser where
    "data (json_body res) = JObj (select ''-password -refreshToken'' (toObject createdUser))"
    by (auto simp: registerUser_def Let_def
        split: if_splits option.splits sum.splits prod.splits)
  moreover have "''password'' \<notin> fst ` set (select ''-password -refreshToken'' (toObject createdUser))"
    by (rule select_excludes) (simp only: split_projection_register, simp)
  moreover have "''refreshToken'' \<notin> fst ` set (select ''-password -refreshToken'' (toObject createdUser))"
    by (rule select_excludes) (simp only: split_projection_register, simp)
  ultimately show ?thesis by blast
qed

text \<open>
  The registration of alice succeeds, and C3 is used on its response.
\<close>

theorem register_response_sanitized_witness:
  "registerUser spec_env [] register_alice =
     ([alice],
      Inr \<lparr> status = 201, set_cookies = [], cleared_cookies = [],
        json_body = \<lparr> statusCode = 201,
          data = JObj [(''_id'', JNum 1), (''username'', JStr ''alice''),
                       (''email'', JStr ''a@x.com''), (''fullName'', JStr ''Alice A''),
                       (''avatar'', JStr ''cdn/a.png''), (''coverImage'', JStr [])],
          message = ''User registered successfully'' \<rparr> \<rparr>)
   \<and> (\<exists>kvs. data (json_body \<lparr> status = 201, set_cookies = [], cleared_cookies = [],
        json_body = \<lparr> statusCode = 201,
          data = JObj [(''_id'', JNum 1), (''username'', JStr ''alice''),
                       (''email'', JStr ''a@x.com''), (''fullName'', JStr ''Alice A''),
                       (''avatar'', JStr ''cdn/a.png''), (''coverImage'', JStr [])],
          message = ''User registered successfully'' \<rparr> \<rparr>) = JObj kvs
        \<and> ''password'' \<notin> fst ` set kvs \<and> ''refreshToken'' \<notin> fst ` set kvs)"
proof -
  have run: "registerUser spec_env [] register_alice =
     ([alice],
      Inr \<lparr> status = 201, set_cookies = [], cleared_cookies = [],
        json_body = \<lparr> statusCode = 201,
          data = JObj [(''_id'', JNum 1), (''username'', JStr ''alice''),
                       (''email'', JStr ''a@x.com''), (''fullName'', JStr ''Alice A''),
                       (''avatar'', JStr ''cdn/a.png''), (''coverImage'', JStr [])],
          message = ''User registered successfully'' \<rparr> \<rparr>)"
    by (simp add: registerUser_def register_alice_def spec_env_def trim_def is_space_def
        findOne_def avatarLocalPath_def coverImageLocalPath_def truthy_def toLowerCase_def
        lower_char_def User_create_def new_id_def findById_def select_def toObject_def
        alice_def Let_def)
  from register_response_sanitized [OF run] run show ?thesis
    by simp
qed

text \<open>
  A text field that is present and empty after trimming is rejected with status 400,
  and nothing is stored.
\<close>

lemma register_blank_field:
  assumes "list_ex (\<lambda>field. map_option trim field = Some [])
      [body req ''fullName'', body req ''email'', body req ''username'', body req ''password'']"
  shows "registerUser env db req = (db, Inl (ApiError 400 ''All field are required!''))"
  using assms by (simp add: registerUser_def Let_def)

text \<open>
  Claim C5 says that a registration with a text field missing fails with status 400.
  The check \<open>field?.trim() === ""\<close> is false for an undefined field, so a request
  without a username passes it: with a new email and an avatar the handler goes on to
  \<open>username.toLowerCase()\<close>, which throws a \<open>TypeError\<close>, not an \<open>ApiError\<close> of
  status 400.
\<close>

theorem register_missing_username_not_rejected:
  "registerUser spec_env [] register_without_username =
     ([], Inl (TypeError ''Cannot read properties of undefined (reading toLowerCase)''))"
  by (simp add: registerUser_def register_without_username_def spec_env_def trim_def
      is_space_def findOne_def avatarLocalPath_def truthy_def Let_def)




text \<open>
  Claim C9, as amended. For a registration that passes the validation and the
  duplicate lookup: when \<open>req.files\<close> is undefined, the optional chain
  \<open>req.files?.avatar[0].path\<close> is undefined and the check of the profile image
  answers 400; when \<open>req.files\<close> is an object without an avatar (or with an empty
  avatar array), the indexing throws a \<open>TypeError\<close> before that check.
\<close>

theorem register_without_avatar:
  assumes "\<not> list_ex (\<lambda>field. map_option trim field = Some [])
      [body req ''fullName'', body req ''email'', body req ''username'', body req ''password'']"
    and "findOne db (body req ''username'') (body req ''email'') = None"
  shows "(files req = None \<longrightarrow>
            registerUser env db req =
              (db, Inl (ApiError 400 ''Please provide a profile image'')))
       \<and> (\<forall>fs. files req = Some fs \<and> (fs ''avatar'' = None \<or> fs ''avatar'' = Some []) \<longrightarrow>
            (\<exists>m. registerUser env db req = (db, Inl (TypeError m))))"
  using assms
  by (auto simp: registerUser_def avatarLocalPath_def truthy_def Let_def)

text \<open>
  Both cases of the amended C9, for a new user bob next to alice.
\<close>

theorem register_without_avatar_witness:
  "\<not> list_ex (\<lambda>field. map_option trim field = Some [])
      [body (register_with ''bob'' ''b@x.com'' ''p1'' (Some Map.empty)) ''fullName'',
       body (register_with ''bob'' ''b@x.com'' ''p1'' (Some Map.empty)) ''email'',
       body (register_with ''bob'' ''b@x.com'' ''p1'' (Some Map.empty)) ''username'',
       body (register_with ''bob'' ''b@x.com'' ''p1'' (Some Map.empty)) ''password'']
   \<and> findOne [alice] (body (register_with ''bob'' ''b@x.com'' ''p1'' (Some Map.empty)) ''username'')
        (body (register_with ''bob'' ''b@x.com'' ''p1'' (Some Map.empty)) ''email'') = None
   \<and> files (register_with ''bob'' ''b@x.com'' ''p1'' (Some Map.empty)) = Some Map.empty
   \<and> (\<exists>m. registerUser spec_env [alice] (register_with ''bob'' ''b@x.com'' ''p1'' (Some Map.empty)) =
          ([alice], Inl (TypeError m)))
   \<and> files (register_with ''bob'' ''b@x.com'' ''p1'' None) = None
   \<and> registerUser spec_env [alice] (register_with ''bob'' ''b@x.com'' ''p1'' None) =
       ([alice], Inl (ApiError 400 ''Please provide a profile image''))"
proof -
  let ?req = "register_with ''bob'' ''b@x.com'' ''p1'' (Some Map.empty)"
  let ?req' = "register_with ''bob'' ''b@x.com'' ''p1'' None"
  have h1: "\<not> list_ex (\<lambda>field. map_option trim field = Some [])
      [body ?req ''fullName'', body ?req ''email'', body ?req ''username'', body ?req ''password'']"
    by (simp add: register_with_def trim_def is_space_def)
  have h2: "findOne [alice] (body ?req ''username'') (body ?req ''email'') = None"
    by (simp add: register_with_def findOne_def alice_def)
  have h3: "files ?req = Some Map.empty"
    by (simp add: register_with_def)
  have h1': "\<not> list_ex (\<lambda>field. map_option trim field = Some [])
      [body ?req' ''fullName'', body ?req' ''email'', body ?req' ''username'', body ?req' ''password'']"
    by (simp add: register_with_def trim_def is_space_def)
  have h2': "findOne [alice] (body ?req' ''username'') (body ?req' ''email'') = None"
    by (simp add: register_with_def findOne_def alice_def)
  have h3': "files ?req' = None"
    by (simp add: register_with_def)
  from register_without_avatar [OF h1 h2, of spec_env] h3
  have "\<exists>m. registerUser spec_env [alice] ?req = ([alice], Inl (TypeError m))"
    by simp
  moreover from register_without_avatar [OF h1' h2', of spec_env] h3'
  have "registerUser spec_env [alice] ?req' =
      ([alice], Inl (ApiError 400 ''Please provide a profile image''))"
    by simp
  ultimately show ?thesis
    using h1 h2 h3 h3' by blast
qed

text \<open>
  Claim C9 as stated fails for a request that carries no files at all: the check of
  the profile image is reached and answers 400.
\<close>

theorem register_no_files_counterexample:
  "registerUser spec_env [alice] (register_with ''bob'' ''b@x.com'' ''p1'' None) =
     ([alice], Inl (ApiError 400 ''Please provide a profile image''))"
  by (simp add: registerUser_def register_with_def spec_env_def trim_def is_space_def
      findOne_def avatarLocalPath_def truthy_def alice_def Let_def)

section \<open>Logout\<close>



section \<open>Change password\<close>

lemma updatePassword_success:
  assumes "updatePassword env db req = (db', Inr res)"
  shows "\<exists>(user::user) h. findById db (Some (user_id user)) \<noteq> None
      \<and> hashPassword env (body req ''newPassword'') = Inr h
      \<and> db' = updateOne (user_id user) (\<lambda>u. u\<lparr>password := h\<rparr>) db
      \<and> status res = 200
      \<and> data (json_body res) =
          JObj (case body req ''newPassword'' of None \<Rightarrow> [] | Some p \<Rightarrow> [(''newPassword'', JStr p)])"
proof -
  let ?found = "case findById db (map_option user_id (req_user req)) of
                  Some u \<Rightarrow> Some u
                | None \<Rightarrow> findOne db (body req ''username'') (body req ''email'')"
  from assms obtain user where user: "?found = Some user"
    by (cases ?found) (simp_all add: updatePassword_def Let_def)
  have found: "findById db (Some (user_id user)) \<noteq> None"
  proof (cases "findById db (map_option user_id (req_user req))")
    case None
    with user have "findOne db (body req ''username'') (body req ''email'') = Some user"
      by simp
    then show ?thesis
      unfolding findOne_def findById_def using find_user_id by fastforce
  next
    case (Some u)
    with user have "find (\<lambda>w. user_id w = user_id caller) db = Some user" if "req_user req = Some caller" for caller
      using that by (simp add: findById_def)
    moreover from Some obtain caller where "req_user req = Some caller"
      by (cases "req_user req") (simp_all add: findById_def)
    ultimately have "find (\<lambda>w. user_id w = user_id caller) db = Some user"
      by simp
    then show ?thesis
      unfolding findById_def using find_user_id by fastforce
  qed
  from assms user obtain h where out:
    "hashPassword env (body req ''newPassword'') = Inr h"
    "db' = updateOne (user_id user) (\<lambda>u. u\<lparr>password := h\<rparr>) db"
    "status res = 200"
    "data (json_body res) =
       JObj (case body req ''newPassword'' of None \<Rightarrow> [] | Some p \<Rightarrow> [(''newPassword'', JStr p)])"
    by (auto simp: updatePassword_def Let_def split: if_splits sum.splits)
  have "findById db (Some (user_id user)) \<noteq> None
      \<and> hashPassword env (body req ''newPassword'') = Inr h
      \<and> db' = updateOne (user_id user) (\<lambda>u. u\<lparr>password := h\<rparr>) db
      \<and> status res = 200
      \<and> data (json_body res) =
          JObj (case body req ''newPassword'' of None \<Rightarrow> [] | Some p \<Rightarrow> [(''newPassword'', JStr p)])"
    using found out by simp
  then show ?thesis
    by blast
qed



section \<open>Refresh\<close>

lemma refresh_try_success:
  assumes "refresh_try env now db req = (db', Inr res)"
  shows "\<exists>tok user a r.
      js_or (cookies req ''refreshToken'') (body req ''refreshToken'') = Some tok
      \<and> jwt_verify env tok (REFRESH_TOKEN_SECRET env) now = Inr (Some (user_id user))
      \<and> findById db (Some (user_id user)) = Some user
      \<and> refreshToken user = Val tok
      \<and> db' = updateOne (user_id user) (\<lambda>u. u\<lparr>refreshToken := Val r\<rparr>) db
      \<and> data (json_body res) = JObj [(''accessToken'', JStr a), (''refreshToken'', JStr r)]"
proof -
  from assms obtain tok where tok:
    "js_or (cookies req ''refreshToken'') (body req ''refreshToken'') = Some tok" "tok \<noteq> []"
    by (auto simp: refresh_try_def Let_def split: option.splits if_splits)
  from assms tok obtain sub where sub:
    "jwt_verify env tok (REFRESH_TOKEN_SECRET env) now = Inr sub"
    by (auto simp: refresh_try_def Let_def split: sum.splits)
  from assms tok sub obtain user where user: "findById db sub = Some user"
    by (auto simp: refresh_try_def Let_def split: option.splits)
  then have id: "sub = Some (user_id user)"
    by (auto simp: findById_def find_Some_iff split: option.splits)
  from assms tok sub user have match: "refreshToken user = Val tok"
    by (auto simp: refresh_try_def Let_def split: if_splits)
  from assms tok sub user match obtain a r where
    "generateAccessAndRefreshToken env now db (user_id user) = (db', Inr (a, r))"
    "data (json_body res) = JObj [(''accessToken'', JStr a), (''refreshToken'', JStr r)]"
    by (auto simp: refresh_try_def Let_def split: prod.splits sum.splits)
  with generate_stores [OF this(1)] tok sub user id match show ?thesis
    by blast
qed

lemma refresh_success_iff:
  "refreshAccessToken env now db req = (db', Inr res) \<longleftrightarrow>
   refresh_try env now db req = (db', Inr res)"
  by (auto simp: refreshAccessToken_def split: prod.splits sum.splits)


text \<open>
  Claim C1, as amended. A refresh token that a successful refresh has exchanged is
  rejected with status 401 when it is presented again to the collection that the
  exchange left behind, provided the exchange minted a refresh token different from
  the one presented, and the verifier, where it still accepts the presented token,
  names the subject it named at the exchange.
\<close>

theorem refresh_rejects_replaced_token:
  assumes "refreshAccessToken env now db req = (db', Inr res)"
    and "js_or (cookies req ''refreshToken'') (body req ''refreshToken'') = Some tok"
    and "json_field (data (json_body res)) ''refreshToken'' \<noteq> Some (JStr tok)"
    and "js_or (cookies req' ''refreshToken'') (body req' ''refreshToken'') = Some tok"
    and "\<And>sub sub'. jwt_verify env tok (REFRESH_TOKEN_SECRET env) now = Inr sub
           \<Longrightarrow> jwt_verify env tok (REFRESH_TOKEN_SECRET env) now' = Inr sub'
           \<Longrightarrow> sub' = sub"
  shows "\<exists>m. refreshAccessToken env now' db' req' = (db', Inl (ApiError 401 m))"
proof -
  from assms(1) have "refresh_try env now db req = (db', Inr res)"
    by (simp add: refresh_success_iff)
  from refresh_try_success [OF this] assms(2) obtain user a r where
    verified: "jwt_verify env tok (REFRESH_TOKEN_SECRET env) now = Inr (Some (user_id user))"
    and found: "findById db (Some (user_id user)) = Some user"
    and db': "db' = updateOne (user_id user) (\<lambda>u. u\<lparr>refreshToken := Val r\<rparr>) db"
    and body: "data (json_body res) = JObj [(''accessToken'', JStr a), (''refreshToken'', JStr r)]"
    by auto
  from body assms(3) have fresh: "r \<noteq> tok"
    by (simp add: json_field_def)
  have after: "findById db' (Some (user_id user)) = Some (user\<lparr>refreshToken := Val r\<rparr>)"
    using found db' by (simp add: findById_updateOne)
  have "\<exists>e. refresh_try env now' db' req' = (db', Inl e)"
  proof (cases "jwt_verify env tok (REFRESH_TOKEN_SECRET env) now'")
    case (Inl m)
    then show ?thesis
      using assms(4) by (simp add: refresh_try_def Let_def)
  next
    case (Inr sub')
    with assms(5) [OF verified] have "sub' = Some (user_id user)" by simp
    with Inr after fresh show ?thesis
      using assms(4) by (simp add: refresh_try_def Let_def)
  qed
  then show ?thesis
    by (auto simp: refreshAccessToken_def)
qed

text \<open>
  The hypotheses of the amended C1 hold for the token issued to alice at clock
  reading 0 and exchanged at clock reading 1.
\<close>

theorem refresh_rejects_replaced_token_witness:
  "refreshAccessToken spec_env 1 alice_older_session (refresh_with ''R.1..11'') =
     (alice_session, Inr rotated_response)
   \<and> js_or (cookies (refresh_with ''R.1..11'') ''refreshToken'')
        (body (refresh_with ''R.1..11'') ''refreshToken'') = Some ''R.1..11''
   \<and> json_field (data (json_body rotated_response)) ''refreshToken'' \<noteq> Some (JStr ''R.1..11'')
   \<and> jwt_verify spec_env ''R.1..11'' (REFRESH_TOKEN_SECRET spec_env) 1 = Inr (Some 1)
   \<and> (\<exists>m. refreshAccessToken spec_env 1 alice_session (refresh_with ''R.1..11'') =
          (alice_session, Inl (ApiError 401 m)))"
proof -
  have h2: "js_or (cookies (refresh_with ''R.1..11'') ''refreshToken'')
      (body (refresh_with ''R.1..11'') ''refreshToken'') = Some ''R.1..11''"
    by (simp add: refresh_with_def js_or_def truthy_def)
  have h3: "json_field (data (json_body rotated_response)) ''refreshToken'' \<noteq> Some (JStr ''R.1..11'')"
    by (simp add: rotated_response_def json_field_def)
  have h5: "jwt_verify spec_env ''R.1..11'' (REFRESH_TOKEN_SECRET spec_env) 1 = Inr (Some 1)"
    by (simp add: spec_verify)
  from refresh_rejects_replaced_token [OF refresh_alice_older_session h2 h3 h2, of 1]
    refresh_alice_older_session h2 h3 h5
  show ?thesis by simp
qed

text \<open>
  Claim C1 as stated fails when the exchange happens at the clock reading at which
  the presented token was issued: the issuer signs the same claim set again, the
  stored value is overwritten with the same string, and the second exchange of that
  token succeeds as the first did.
\<close>

theorem refresh_same_clock_counterexample:
  "loginUser spec_env 1 [alice] login_alice = (alice_session, Inr login_response)
   \<and> refreshAccessToken spec_env 1 alice_session (refresh_with ''R.1.1.111'') =
     (alice_session, Inr rotated_response)
   \<and> refreshAccessToken spec_env 1
        (fst (refreshAccessToken spec_env 1 alice_session (refresh_with ''R.1.1.111'')))
        (refresh_with ''R.1.1.111'') =
     (alice_session, Inr rotated_response)"
  by (simp only: login_alice_run refresh_alice_session fst_conv)




section \<open>What the responses carry\<close>

lemma login_success_body:
  assumes "loginUser env now db req = (db', Inr res)"
  shows "\<exists>found a r. data (json_body res) =
      JObj [(''user'', select_doc ''-password -refreshToken -videoUpload -watchHistory'' found),
            (''accessToken'', JStr a), (''refreshToken'', JStr r)]"
  using assms
  by (auto simp: loginUser_def Let_def split: if_splits option.splits sum.splits prod.splits)

text \<open>
  Claim C10, as amended. A successful change of password answers 200 with the plain
  new password of the request in the field \<open>newPassword\<close> of the body. A successful
  login returns an identity without the \<open>password\<close> and \<open>refreshToken\<close> fields,
  next to the access and refresh tokens it has minted.
\<close>

theorem updatePassword_echoes_newPassword:
  "(updatePassword env db req = (db', Inr res) \<longrightarrow>
      status res = 200
      \<and> json_field (data (json_body res)) ''newPassword'' =
          map_option JStr (body req ''newPassword''))
   \<and> (loginUser env now db2 req2 = (db2', Inr res2) \<longrightarrow>
      (\<exists>identity a r.
         data (json_body res2) =
           JObj [(''user'', identity), (''accessToken'', JStr a), (''refreshToken'', JStr r)]
         \<and> json_field identity ''password'' = None
         \<and> json_field identity ''refreshToken'' = None))"
proof (intro conjI impI)
  assume run: "updatePassword env db req = (db', Inr res)"
  from updatePassword_success [OF run] show "status res = 200"
    by blast
  from updatePassword_success [OF run] show
    "json_field (data (json_body res)) ''newPassword'' = map_option JStr (body req ''newPassword'')"
    by (auto simp: json_field_def split: option.splits)
next
  assume "loginUser env now db2 req2 = (db2', Inr res2)"
  from login_success_body [OF this] obtain found a r where
    body: "data (json_body res2) =
      JObj [(''user'', select_doc ''-password -refreshToken -videoUpload -watchHistory'' found),
            (''accessToken'', JStr a), (''refreshToken'', JStr r)]"
    by blast
  have "json_field (select_doc ''-password -refreshToken -videoUpload -watchHistory'' found)
      ''password'' = None"
    by (rule select_doc_excludes) (simp only: split_projection_login, simp)
  moreover have "json_field (select_doc ''-password -refreshToken -videoUpload -watchHistory'' found)
      ''refreshToken'' = None"
    by (rule select_doc_excludes) (simp only: split_projection_login, simp)
  ultimately show "\<exists>identity a r.
      data (json_body res2) =
        JObj [(''user'', identity), (''accessToken'', JStr a), (''refreshToken'', JStr r)]
      \<and> json_field identity ''password'' = None
      \<and> json_field identity ''refreshToken'' = None"
    using body by blast
qed

text \<open>
  The amended C10 on the change of alice's password and on her login.
\<close>

theorem updatePassword_echoes_newPassword_witness:
  "updatePassword spec_env alice_session change_password_alice =
     ([alice\<lparr>refreshToken := Val ''R.1.1.111'', password := ''hash:p2''\<rparr>],
      Inr password_changed_response)
   \<and> status password_changed_response = 200
   \<and> json_field (data (json_body password_changed_response)) ''newPassword'' =
       map_option JStr (body change_password_alice ''newPassword'')
   \<and> body change_password_alice ''newPassword'' = Some ''p2''
   \<and> loginUser spec_env 1 [alice] login_alice = (alice_session, Inr login_response)
   \<and> (\<exists>identity a r.
         data (json_body login_response) =
           JObj [(''user'', identity), (''accessToken'', JStr a), (''refreshToken'', JStr r)]
         \<and> json_field identity ''password'' = None
         \<and> json_field identity ''refreshToken'' = None)"
proof -
  have run: "updatePassword spec_env alice_session change_password_alice =
     ([alice\<lparr>refreshToken := Val ''R.1.1.111'', password := ''hash:p2''\<rparr>],
      Inr password_changed_response)"
    by (simp add: updatePassword_def change_password_alice_def alice_session_def
        spec_env_def findById_def alice_def password_changed_response_def Let_def)
  have given: "body change_password_alice ''newPassword'' = Some ''p2''"
    by (simp add: change_password_alice_def)
  from updatePassword_echoes_newPassword
    [of spec_env alice_session change_password_alice
      "[alice\<lparr>refreshToken := Val ''R.1.1.111'', password := ''hash:p2''\<rparr>]"
      password_changed_response 1 "[alice]" login_alice alice_session login_response]
    run given login_alice_run
  show ?thesis by simp
qed

text \<open>
  Claim C10 as stated fails in its comparison: the body of a successful login
  carries the refresh token, the bearer credential that the same call stored on the
  record.
\<close>

theorem login_response_carries_tokens_counterexample:
  "loginUser spec_env 1 [alice] login_alice = (alice_session, Inr login_response)
   \<and> json_field (data (json_body login_response)) ''refreshToken'' = Some (JStr ''R.1.1.111'')
   \<and> map refreshToken alice_session = [Val ''R.1.1.111'']"
  using login_alice_run
  by (simp add: login_response_def json_field_def alice_session_def)

end
